theory Spec2Isabelle
  imports Main "HOL-Library.Word"
begin

section \<open>Values shared by the packages\<close>

text \<open>
  A Go \<^verbatim>\<open>error\<close> built by \<^verbatim>\<open>errors.New\<close>: the program asks it for its text
  (\<^verbatim>\<open>err.Error()\<close>) or compares it with \<^verbatim>\<open>nil\<close>. A value that may be \<^verbatim>\<open>nil\<close> is an
  \<open>option\<close>.
\<close>

datatype error = errors_New string

fun Error_text :: "error \<Rightarrow> string" where
  "Error_text (errors_New m) = m"

text \<open>
  The error of the query decoder, \<^verbatim>\<open>schema.MultiError\<close>: the query keys it could not
  decode. For the parameter struct of this program those are the keys that name no
  field.
\<close>

datatype MultiError = UnknownKeys "string list"

text \<open>
  The run-time faults: reading a field through \<^verbatim>\<open>nil\<close>, and \<^verbatim>\<open>WriteHeader\<close> with a code
  that is not a three-digit number.
\<close>

datatype panic = NilPointerDereference | InvalidWriteHeaderCode int

definition StatusOK :: int where
  "StatusOK = 200"

definition StatusBadRequest :: int where
  "StatusBadRequest = 400"

definition StatusInternalServerError :: int where
  "StatusInternalServerError = 500"

section \<open>The response writer and the JSON encoder\<close>

text \<open>
  \<^verbatim>\<open>http.ResponseWriter\<close> as the server implements it. \<open>Header\<close> is the header map the
  handler edits. \<open>status\<close> is the final status line once it has gone out, and
  \<open>sentHeader\<close> the header map as it was at that moment: later edits are not sent.
  \<open>informational\<close> lists the 1xx status lines sent before the final one, and \<open>written\<close>
  is the body.

  \<^verbatim>\<open>WriteHeader\<close> does nothing when the final status line has gone out; otherwise it
  panics on a code below 100 or above 999, sends a code from 100 to 199 other than 101
  as an informational line and leaves the final status open, and sends any other code as
  the final status. \<^verbatim>\<open>Write\<close> sends the status 200 first when no final status has gone
  out, and writes nothing when the status allows no body (1xx, 204, 304).
\<close>

record ResponseWriter =
  Header :: "string \<rightharpoonup> string"
  status :: "int option"
  sentHeader :: "string \<rightharpoonup> string"
  informational :: "int list"
  written :: string

definition newResponseWriter :: ResponseWriter where
  "newResponseWriter =
     \<lparr>Header = Map.empty, status = None, sentHeader = Map.empty, informational = [],
      written = ''''\<rparr>"

definition Header_Set :: "string \<Rightarrow> string \<Rightarrow> ResponseWriter \<Rightarrow> ResponseWriter" where
  "Header_Set k v w = w\<lparr>Header := (Header w)(k \<mapsto> v)\<rparr>"

definition WriteHeader :: "int \<Rightarrow> ResponseWriter \<Rightarrow> panic + ResponseWriter" where
  "WriteHeader code w =
     (case status w of
        Some _ \<Rightarrow> Inr w
      | None \<Rightarrow>
          if code < 100 \<or> code > 999 then Inl (InvalidWriteHeaderCode code)
          else if 100 \<le> code \<and> code \<le> 199 \<and> code \<noteq> 101
            then Inr (w\<lparr>informational := informational w @ [code]\<rparr>)
          else Inr (w\<lparr>status := Some code, sentHeader := Header w\<rparr>))"

definition bodyAllowedForStatus :: "int \<Rightarrow> bool" where
  "bodyAllowedForStatus code =
     (if 100 \<le> code \<and> code \<le> 199 then False
      else if code = 204 then False
      else if code = 304 then False
      else True)"

definition Write :: "string \<Rightarrow> ResponseWriter \<Rightarrow> ResponseWriter" where
  "Write bs w =
     (let w1 = (case status w of
                  None \<Rightarrow> w\<lparr>status := Some StatusOK, sentHeader := Header w\<rparr>
                | Some _ \<Rightarrow> w)
      in if bs = [] then w1
         else case status w1 of
                None \<Rightarrow> w1
              | Some code \<Rightarrow>
                  if bodyAllowedForStatus code then w1\<lparr>written := written w1 @ bs\<rparr> else w1)"

text \<open>
  \<^verbatim>\<open>encoding/json\<close> on the two response structs. Integers are written in decimal, a
  string between double quotes with the encoder's escapes (the quote, the backslash, the
  control characters, and \<^verbatim>\<open><\<close>, \<^verbatim>\<open>>\<close>, \<^verbatim>\<open>&\<close> as \<^verbatim>\<open>\u00XX\<close>); bytes from \<^verbatim>\<open>0x80\<close> on are
  copied, which is what the encoder does on well-formed UTF-8 other than U+2028 and
  U+2029. \<^verbatim>\<open>Encode\<close> ends the document with a newline; the program does not look at the
  error it returns.
\<close>

fun digits :: "nat \<Rightarrow> string" where
  "digits n =
     (if n < 10 then [''0123456789'' ! n]
      else digits (n div 10) @ [''0123456789'' ! (n mod 10)])"

declare digits.simps [simp del]

definition appendInt :: "int \<Rightarrow> string" where
  "appendInt i = (if i < 0 then CHR ''-'' # digits (nat (- i)) else digits (nat i))"

definition hex :: "nat \<Rightarrow> char" where
  "hex n = ''0123456789abcdef'' ! n"

definition escape :: "char \<Rightarrow> string" where
  \<open>escape c =
     (if c = CHR 0x22 then [CHR 0x5C, CHR 0x22]
      else if c = CHR 0x5C then [CHR 0x5C, CHR 0x5C]
      else if c = CHR 0x08 then [CHR 0x5C, CHR ''b'']
      else if c = CHR 0x0C then [CHR 0x5C, CHR ''f'']
      else if c = CHR 0x0A then [CHR 0x5C, CHR ''n'']
      else if c = CHR 0x0D then [CHR 0x5C, CHR ''r'']
      else if c = CHR 0x09 then [CHR 0x5C, CHR ''t'']
      else if (of_char c :: nat) < 0x20 \<or> c = CHR ''<'' \<or> c = CHR ''>'' \<or> c = CHR ''&''
        then [CHR 0x5C, CHR ''u'', CHR ''0'', CHR ''0'',
              hex (of_char c div 16), hex (of_char c mod 16)]
      else [c])\<close>

definition appendString :: "string \<Rightarrow> string" where
  \<open>appendString src = [CHR 0x22] @ concat (map escape src) @ [CHR 0x22]\<close>

section \<open>api/api.go\<close>

record CoinBalanceParams =
  Username :: string

record CoinBalanceResponse =
  StatusCode :: int
  Balance :: "64 word"

text \<open>
  The struct \<^verbatim>\<open>Error\<close> has the fields \<^verbatim>\<open>StatusCode\<close> and \<^verbatim>\<open>Message\<close>; its first field
  is \<open>ErrorStatusCode\<close> here, since \<open>StatusCode\<close> is the field of the record above.
  Both are written under the key \<^verbatim>\<open>"StatusCode"\<close>.
\<close>

record Error =
  ErrorStatusCode :: int
  Message :: string

definition marshal_CoinBalanceResponse :: "CoinBalanceResponse \<Rightarrow> string" where
  \<open>marshal_CoinBalanceResponse v =
     ''{"StatusCode":'' @ appendInt (StatusCode v) @
     '',"Balance":'' @ appendInt (sint (Balance v)) @ ''}''\<close>

definition marshal_Error :: "Error \<Rightarrow> string" where
  \<open>marshal_Error v =
     ''{"StatusCode":'' @ appendInt (ErrorStatusCode v) @
     '',"Message":'' @ appendString (Message v) @ ''}''\<close>

definition Encode :: "string \<Rightarrow> ResponseWriter \<Rightarrow> ResponseWriter" where
  "Encode doc w = Write (doc @ [CHR 0x0A]) w"

definition writeError :: "ResponseWriter \<Rightarrow> string \<Rightarrow> int \<Rightarrow> panic + ResponseWriter" where
  "writeError w message statusCode =
     (let resp = \<lparr>ErrorStatusCode = statusCode, Message = message\<rparr>;
          w1 = Header_Set ''Content-Type'' ''application/json'' w
      in case WriteHeader statusCode w1 of
           Inl p \<Rightarrow> Inl p
         | Inr w2 \<Rightarrow> Inr (Encode (marshal_Error resp) w2))"

definition RequestErrorHandler :: "ResponseWriter \<Rightarrow> error \<Rightarrow> panic + ResponseWriter" where
  "RequestErrorHandler w err = writeError w (Error_text err) StatusBadRequest"

definition InternalErrorHandler :: "ResponseWriter \<Rightarrow> panic + ResponseWriter" where
  "InternalErrorHandler w =
     writeError w ''An Unexpected Error Occured.'' StatusInternalServerError"

section \<open>internal/tools: the store\<close>

text \<open>
  The two record types are declared in \<^verbatim>\<open>internal/tools/database.go\<close>; their fields are
  the ones the composite literals of the mock store name, and \<^verbatim>\<open>Coins\<close> is an \<^verbatim>\<open>int64\<close>,
  the type of the field \<^verbatim>\<open>Balance\<close> it is assigned to. The field \<^verbatim>\<open>Username\<close> of each is
  prefixed with the struct it belongs to.
\<close>

record LoginDetails =
  AuthToken :: string
  LoginUsername :: string

record CoinDetails =
  Coins :: "64 word"
  CoinUsername :: string

text \<open>
  The state the store's methods run in. The two package-level maps hold records by
  value. A local variable whose address is returned lives in a cell of its own:
  \<open>loginVars\<close> and \<open>coinVars\<close> are those cells, a pointer is the number of a cell and
  \<open>nextLoginVar\<close>, \<open>nextCoinVar\<close> number the next cell to be handed out. \<open>lookups\<close>
  records which lookups have been made, in order, and \<open>logged\<close> the errors handed to
  the logger; the program reads neither. The one-second sleep of each lookup is not part
  of the state.
\<close>

datatype lookup = LoginLookup string | CoinLookup string

record world =
  mockLoginDetails :: "string \<rightharpoonup> LoginDetails"
  mockCoinDetails :: "string \<rightharpoonup> CoinDetails"
  loginVars :: "nat \<Rightarrow> LoginDetails"
  nextLoginVar :: nat
  coinVars :: "nat \<Rightarrow> CoinDetails"
  nextCoinVar :: nat
  lookups :: "lookup list"
  logged :: "MultiError list"

definition reference_logins :: "string \<rightharpoonup> LoginDetails" where
  "reference_logins =
     [''alex'' \<mapsto> \<lparr>AuthToken = ''123ABC'', LoginUsername = ''alex''\<rparr>,
      ''maria'' \<mapsto> \<lparr>AuthToken = ''456DEF'', LoginUsername = ''maria''\<rparr>,
      ''john'' \<mapsto> \<lparr>AuthToken = ''789GHI'', LoginUsername = ''john''\<rparr>]"

definition reference_coins :: "string \<rightharpoonup> CoinDetails" where
  "reference_coins =
     [''alex'' \<mapsto> \<lparr>Coins = 1000, CoinUsername = ''alex''\<rparr>,
      ''maria'' \<mapsto> \<lparr>Coins = 2500, CoinUsername = ''maria''\<rparr>,
      ''john'' \<mapsto> \<lparr>Coins = 500, CoinUsername = ''john''\<rparr>]"

text \<open>The state at program start: the maps as their initialisers give them, no cell in use.\<close>

definition initial_world :: world where
  "initial_world =
     \<lparr>mockLoginDetails = reference_logins, mockCoinDetails = reference_coins,
      loginVars = (\<lambda>_. \<lparr>AuthToken = '''', LoginUsername = ''''\<rparr>), nextLoginVar = 0,
      coinVars = (\<lambda>_. \<lparr>Coins = 0, CoinUsername = ''''\<rparr>), nextCoinVar = 0,
      lookups = [], logged = []\<rparr>"

text \<open>
  \<^verbatim>\<open>GetUserLoginDetails\<close>: the variable \<^verbatim>\<open>clientData\<close> is declared with the zero record,
  takes the map's entry by the comma-ok read (the zero record when the key is absent),
  and its address is the result when the key was there.
\<close>

definition mockDB_GetUserLoginDetails :: "string \<Rightarrow> world \<Rightarrow> nat option \<times> world" where
  "mockDB_GetUserLoginDetails username s =
     (let clientData = nextLoginVar s;
          s1 = s\<lparr>loginVars := (loginVars s)(clientData := \<lparr>AuthToken = '''', LoginUsername = ''''\<rparr>),
                 nextLoginVar := Suc clientData,
                 lookups := lookups s @ [LoginLookup username]\<rparr>
      in case mockLoginDetails s1 username of
           None \<Rightarrow> (None, s1)
         | Some v \<Rightarrow> (Some clientData, s1\<lparr>loginVars := (loginVars s1)(clientData := v)\<rparr>))"

definition mockDB_GetUserCoins :: "string \<Rightarrow> world \<Rightarrow> nat option \<times> world" where
  "mockDB_GetUserCoins username s =
     (let coinData = nextCoinVar s;
          s1 = s\<lparr>coinVars := (coinVars s)(coinData := \<lparr>Coins = 0, CoinUsername = ''''\<rparr>),
                 nextCoinVar := Suc coinData,
                 lookups := lookups s @ [CoinLookup username]\<rparr>
      in case mockCoinDetails s1 username of
           None \<Rightarrow> (None, s1)
         | Some v \<Rightarrow> (Some coinData, s1\<lparr>coinVars := (coinVars s1)(coinData := v)\<rparr>))"

definition mockDB_SetupDatabase :: "world \<Rightarrow> error option \<times> world" where
  "mockDB_SetupDatabase s = (None, s)"

text \<open>\<^verbatim>\<open>DatabaseInterface\<close>: the three methods a store offers, and the mock store as one.\<close>

record DatabaseInterface =
  GetUserLoginDetails :: "string \<Rightarrow> world \<Rightarrow> nat option \<times> world"
  GetUserCoins :: "string \<Rightarrow> world \<Rightarrow> nat option \<times> world"
  SetupDatabase :: "world \<Rightarrow> error option \<times> world"

definition mockDB :: DatabaseInterface where
  "mockDB =
     \<lparr>GetUserLoginDetails = mockDB_GetUserLoginDetails,
      GetUserCoins = mockDB_GetUserCoins,
      SetupDatabase = mockDB_SetupDatabase\<rparr>"

section \<open>internal/middleware and internal/handlers\<close>

text \<open>
  A request, as far as the two stages read it: the parsed query (\<^verbatim>\<open>r.URL.Query()\<close>, each
  key with its list of values in the order of the URL, the empty list for a key that is
  not there) and the request headers. \<^verbatim>\<open>Get\<close> on either returns the first value of the
  key, or the empty string.
\<close>

record Request =
  URL_Query :: "string \<Rightarrow> string list"
  RequestHeader :: "string \<Rightarrow> string list"

definition Values_Get :: "(string \<Rightarrow> string list) \<Rightarrow> string \<Rightarrow> string" where
  "Values_Get vs k = (case vs k of [] \<Rightarrow> '''' | v # _ \<Rightarrow> v)"

type_synonym handler =
  "ResponseWriter \<Rightarrow> Request \<Rightarrow> world \<Rightarrow> (panic + ResponseWriter) \<times> world"

text \<open>
  Modelled from the spec: the declaration of \<^verbatim>\<open>UnAuthorizedError\<close> is not among the
  sources. Its text is the message of the authorization failure in the interface
  section of the specification, which is also the one the README shows.
\<close>

definition UnAuthorizedError :: error where
  "UnAuthorizedError = errors_New ''Invalid username or token.''"

text \<open>
  \<^verbatim>\<open>Authorization\<close>, from its listing in the README. \<^verbatim>\<open>tools.NewDatabase\<close> is not among
  the sources: \<open>database\<close> stands for the store it hands back.
\<close>

definition Authorization :: "DatabaseInterface \<Rightarrow> handler \<Rightarrow> handler" where
  "Authorization database next w r s =
     (let username = Values_Get (URL_Query r) ''username'';
          token = Values_Get (RequestHeader r) ''Authorization''
      in if username = '''' \<or> token = ''''
         then (RequestErrorHandler w UnAuthorizedError, s)
         else
           (case GetUserLoginDetails database username s of
              (loginDetails, s1) \<Rightarrow>
                (case loginDetails of
                   None \<Rightarrow> (RequestErrorHandler w UnAuthorizedError, s1)
                 | Some p \<Rightarrow>
                     if token \<noteq> AuthToken (loginVars s1 p)
                     then (RequestErrorHandler w UnAuthorizedError, s1)
                     else next w r s1)))"

subsection \<open>The query decoder\<close>

text \<open>
  \<^verbatim>\<open>strings.EqualFold\<close> of a name made of ASCII characters with a query key: equality
  under simple Unicode case folding. Besides its two ASCII forms the letter \<^verbatim>\<open>s\<close> folds
  with U+017F and the letter \<^verbatim>\<open>k\<close> with U+212A, here in their UTF-8 bytes.
\<close>

definition ascii_fold_eq :: "char \<Rightarrow> char \<Rightarrow> bool" where
  "ascii_fold_eq c d =
     (c = d \<or>
      (65 \<le> (of_char c :: nat) \<and> (of_char c :: nat) \<le> 90 \<and> (of_char d :: nat) = of_char c + 32) \<or>
      (65 \<le> (of_char d :: nat) \<and> (of_char d :: nat) \<le> 90 \<and> (of_char c :: nat) = of_char d + 32))"

fun EqualFold :: "string \<Rightarrow> string \<Rightarrow> bool" where
  "EqualFold [] t = (t = [])"
| "EqualFold (c # s) [] = False"
| "EqualFold (c # s) (d # t) =
     (if ascii_fold_eq c d then EqualFold s t
      else if (c = CHR ''s'' \<or> c = CHR ''S'') \<and> d = CHR 0xC5 \<and> take 1 t = [CHR 0xBF]
        then EqualFold s (drop 1 t)
      else if (c = CHR ''k'' \<or> c = CHR ''K'') \<and> d = CHR 0xE2 \<and> take 2 t = [CHR 0x84, CHR 0xAA]
        then EqualFold s (drop 2 t)
      else False)"

text \<open>
  \<^verbatim>\<open>decoder.Decode(&params, r.URL.Query())\<close> of the library \<^verbatim>\<open>gorilla/schema\<close>, on the
  struct \<^verbatim>\<open>CoinBalanceParams\<close>: its one field has no tag, so its alias is its name. The
  decoder ranges over the query, a Go map, whose keys it meets in an order the run time
  chooses anew for every loop: \<open>walk\<close> is that order, the keys of the query one after
  the other. A key that folds to \<^verbatim>\<open>Username\<close> sets the field to the last of its values,
  unless that value is empty; any other key is an unknown key. The error is the
  collection of unknown keys when there is one, \<^verbatim>\<open>nil\<close> otherwise.
\<close>

definition decode_key ::
  "(string \<Rightarrow> string list) \<Rightarrow> CoinBalanceParams \<times> string list \<Rightarrow> string \<Rightarrow>
   CoinBalanceParams \<times> string list" where
  "decode_key src acc path =
     (case acc of
        (dst, multiError) \<Rightarrow>
          if EqualFold ''Username'' path then
            (let val = (case src path of [] \<Rightarrow> '''' | v # vs \<Rightarrow> last (v # vs))
             in if val = '''' then (dst, multiError) else (dst\<lparr>Username := val\<rparr>, multiError))
          else (dst, multiError @ [path]))"

definition Decode ::
  "string list \<Rightarrow> CoinBalanceParams \<Rightarrow> (string \<Rightarrow> string list) \<Rightarrow>
   CoinBalanceParams \<times> MultiError option" where
  "Decode walk dst src =
     (case foldl (decode_key src) (dst, []) walk of
        (dst', multiError) \<Rightarrow>
          (dst', if multiError = [] then None else Some (UnknownKeys multiError)))"

text \<open>
  The order \<open>walk\<close> is one the run time can choose for the query of \<open>r\<close>: every key of
  the query once, and nothing else.
\<close>

definition walks_query :: "string list \<Rightarrow> Request \<Rightarrow> bool" where
  "walks_query walk r = (distinct walk \<and> set walk = {k. URL_Query r k \<noteq> []})"

subsection \<open>The balance handler\<close>

text \<open>
  Modelled from the spec: what \<^verbatim>\<open>GetCoinBalance\<close> does with the error of the decoder.
  The file of the handler is not among the sources, and its listing in the README binds
  the error without a statement that reads it. The step is the first one of the handler
  in the specification, as the README shows it under error handling: the error is
  logged, the internal-error response is written, and the handler returns.
\<close>

definition decode_failed :: "MultiError \<Rightarrow> handler" where
  "decode_failed err w r s = (InternalErrorHandler w, s\<lparr>logged := logged s @ [err]\<rparr>)"

text \<open>
  \<^verbatim>\<open>GetCoinBalance\<close>, from its listing in the README, with the step above where the
  decoder returns an error. The field \<^verbatim>\<open>Coins\<close> is read through the pointer the store
  returned, before anything is written; through \<^verbatim>\<open>nil\<close> that read is the panic. The
  status line is left to the first write.
\<close>

definition GetCoinBalance :: "string list \<Rightarrow> DatabaseInterface \<Rightarrow> handler" where
  "GetCoinBalance walk database w r s =
     (case Decode walk \<lparr>Username = ''''\<rparr> (URL_Query r) of
        (params, err) \<Rightarrow>
          (case err of
             Some e \<Rightarrow> decode_failed e w r s
           | None \<Rightarrow>
               (case GetUserCoins database (Username params) s of
                  (tokenDetails, s1) \<Rightarrow>
                    (case tokenDetails of
                       None \<Rightarrow> (Inl NilPointerDereference, s1)
                     | Some p \<Rightarrow>
                         (let response =
                                \<lparr>StatusCode = StatusOK, Balance = Coins (coinVars s1 p)\<rparr>;
                              w1 = Header_Set ''Content-Type'' ''application/json'' w
                          in (Inr (Encode (marshal_CoinBalanceResponse response) w1), s1))))))"

text \<open>
  The route \<^verbatim>\<open>GET /account/coins\<close> as \<^verbatim>\<open>Handler\<close> mounts it: the gate around the balance
  handler, on a writer nothing has been written to.
\<close>

definition account_coins ::
  "string list \<Rightarrow> DatabaseInterface \<Rightarrow> Request \<Rightarrow> world \<Rightarrow> (panic + ResponseWriter) \<times> world"
  where
  "account_coins walk database r s =
     Authorization database (GetCoinBalance walk database) newResponseWriter r s"

section \<open>Clients of the service and of the store\<close>

text \<open>
  The request \<^verbatim>\<open>GET /account/coins\<close> with the given values of the query parameter
  \<^verbatim>\<open>username\<close> and of the header \<^verbatim>\<open>Authorization\<close> (no value: the parameter or the header
  is absent) and the further query parameters \<open>others\<close>.
\<close>

definition request_with ::
  "string list \<Rightarrow> string list \<Rightarrow> (string \<Rightarrow> string list) \<Rightarrow> Request" where
  "request_with usernames tokens others =
     \<lparr>URL_Query = (\<lambda>k. if k = ''username'' then usernames else others k),
      RequestHeader = (\<lambda>k. if k = ''Authorization'' then tokens else [])\<rparr>"

text \<open>
  The same request sent once for every element of \<open>walks\<close>, one after the other, the
  decoder meeting the keys of the query in that order: the responses, in order.
\<close>

fun repeat_request ::
  "DatabaseInterface \<Rightarrow> Request \<Rightarrow> string list list \<Rightarrow> world \<Rightarrow>
   (panic + ResponseWriter) list \<times> world"
  where
  "repeat_request database r [] s = ([], s)"
| "repeat_request database r (walk # walks) s =
     (case account_coins walk database r s of
        (response, s1) \<Rightarrow>
          (case repeat_request database r walks s1 of
             (responses, s2) \<Rightarrow> (response # responses, s2)))"

text \<open>
  What code outside the package can do with the mock store: call one of the two lookups,
  or assign through a pointer to a record (\<^verbatim>\<open>*p = v\<close>).
\<close>

datatype client_step =
  CallGetUserLoginDetails string
| CallGetUserCoins string
| AssignLoginDetails nat LoginDetails
| AssignCoinDetails nat CoinDetails

fun perform :: "client_step \<Rightarrow> world \<Rightarrow> world" where
  "perform (CallGetUserLoginDetails username) s = snd (mockDB_GetUserLoginDetails username s)"
| "perform (CallGetUserCoins username) s = snd (mockDB_GetUserCoins username s)"
| "perform (AssignLoginDetails p v) s = s\<lparr>loginVars := (loginVars s)(p := v)\<rparr>"
| "perform (AssignCoinDetails p v) s = s\<lparr>coinVars := (coinVars s)(p := v)\<rparr>"

fun run_client :: "client_step list \<Rightarrow> world \<Rightarrow> world" where
  "run_client [] s = s"
| "run_client (c # cs) s = run_client cs (perform c s)"

text \<open>
  A store whose credential map has an identity that its balance map lacks: the
  reference data and a credential record for \<^verbatim>\<open>bob\<close>.
\<close>

definition world_without_balance :: world where
  "world_without_balance =
     initial_world\<lparr>mockLoginDetails :=
       reference_logins(''bob'' \<mapsto> \<lparr>AuthToken = ''000XYZ'', LoginUsername = ''bob''\<rparr>)\<rparr>"

section \<open>Reading a response body\<close>

text \<open>
  The integer fields of a response body, read back from the bytes on the wire: a decimal
  number with an optional sign, after the key that introduces it.
\<close>

definition is_digit :: "char \<Rightarrow> bool" where
  "is_digit c = (48 \<le> (of_char c :: nat) \<and> (of_char c :: nat) \<le> 57)"

fun read_digits :: "nat \<Rightarrow> string \<Rightarrow> nat \<times> string" where
  "read_digits acc [] = (acc, [])"
| "read_digits acc (c # cs) =
     (if is_digit c then read_digits (10 * acc + (of_char c - 48)) cs else (acc, c # cs))"

definition read_int :: "string \<Rightarrow> (int \<times> string) option" where
  "read_int doc =
     (case doc of
        [] \<Rightarrow> None
      | c # cs \<Rightarrow>
          if c = CHR ''-'' then
            (case cs of
               [] \<Rightarrow> None
             | d # _ \<Rightarrow>
                 if is_digit d then (case read_digits 0 cs of (n, rest) \<Rightarrow> Some (- int n, rest))
                 else None)
          else if is_digit c then (case read_digits 0 doc of (n, rest) \<Rightarrow> Some (int n, rest))
          else None)"

definition number_after :: "string \<Rightarrow> string \<Rightarrow> (int \<times> string) option" where
  "number_after key doc =
     (if take (length key) doc = key then read_int (drop (length key) doc) else None)"

definition StatusCode_field :: "string \<Rightarrow> int option" where
  \<open>StatusCode_field doc = map_option fst (number_after ''{"StatusCode":'' doc)\<close>

definition Balance_field :: "string \<Rightarrow> int option" where
  \<open>Balance_field doc =
     (case number_after ''{"StatusCode":'' doc of
        None \<Rightarrow> None
      | Some (_, rest) \<Rightarrow> map_option fst (number_after '',"Balance":'' rest))\<close>

section \<open>Decimal numbers are read back as written\<close>

lemma digit_char:
  assumes "d < 10"
  shows "is_digit (''0123456789'' ! d)" and "(of_char (''0123456789'' ! d) :: nat) - 48 = d"
proof -
  from assms have "d = 0 \<or> d = 1 \<or> d = 2 \<or> d = 3 \<or> d = 4 \<or> d = 5 \<or> d = 6 \<or> d = 7 \<or> d = 8 \<or> d = 9"
    by arith
  then show "is_digit (''0123456789'' ! d)" and "(of_char (''0123456789'' ! d) :: nat) - 48 = d"
    by (auto simp add: is_digit_def)
qed

lemma digits_nonempty: "digits n \<noteq> []"
  by (subst digits.simps) simp

lemma hd_digits: "is_digit (hd (digits n))"
proof (induction n rule: digits.induct)
  case (1 n)
  show ?case
  proof (cases "n < 10")
    case True
    then show ?thesis by (subst digits.simps) (simp add: digit_char)
  next
    case False
    with 1 show ?thesis by (subst digits.simps) (simp add: digits_nonempty)
  qed
qed

lemma read_digits_digits:
  "read_digits acc (digits n @ rest) = read_digits (acc * 10 ^ length (digits n) + n) rest"
proof (induction n arbitrary: acc rest rule: digits.induct)
  case (1 n)
  show ?case
  proof (cases "n < 10")
    case True
    then show ?thesis
      by (subst (1 2) digits.simps) (simp add: digit_char mult.commute)
  next
    case False
    let ?d = "''0123456789'' ! (n mod 10)"
    let ?k = "length (digits (n div 10))"
    have d: "is_digit ?d" "(of_char ?d :: nat) - 48 = n mod 10"
      using digit_char [of "n mod 10"] by simp_all
    have unfold: "digits n = digits (n div 10) @ [?d]"
      using False by (subst digits.simps) simp
    have "read_digits acc (digits n @ rest) = read_digits acc (digits (n div 10) @ (?d # rest))"
      by (simp add: unfold)
    also have "\<dots> = read_digits (acc * 10 ^ ?k + n div 10) (?d # rest)"
      using False by (rule "1.IH")
    also have "\<dots> = read_digits (10 * (acc * 10 ^ ?k + n div 10) + n mod 10) rest"
      using d by simp
    also have "10 * (acc * 10 ^ ?k + n div 10) + n mod 10 = acc * 10 ^ length (digits n) + n"
      by (simp add: unfold algebra_simps)
    finally show ?thesis .
  qed
qed

lemma read_digits_stop:
  "rest = [] \<or> \<not> is_digit (hd rest) \<Longrightarrow> read_digits acc rest = (acc, rest)"
  by (cases rest) auto

lemma read_int_appendInt:
  assumes "rest = [] \<or> \<not> is_digit (hd rest)"
  shows "read_int (appendInt i @ rest) = Some (i, rest)"
proof (cases "i < 0")
  case True
  obtain d ds where ds: "digits (nat (- i)) = d # ds"
    using digits_nonempty [of "nat (- i)"] by (cases "digits (nat (- i))") auto
  have dd: "is_digit d"
    using hd_digits [of "nat (- i)"] by (simp add: ds)
  have "read_digits 0 (digits (nat (- i)) @ rest) = (nat (- i), rest)"
    by (simp add: read_digits_digits read_digits_stop [OF assms])
  then show ?thesis
    using True dd by (simp add: read_int_def appendInt_def ds)
next
  case False
  obtain d ds where ds: "digits (nat i) = d # ds"
    using digits_nonempty [of "nat i"] by (cases "digits (nat i)") auto
  have dd: "is_digit d"
    using hd_digits [of "nat i"] by (simp add: ds)
  have nm: "d \<noteq> CHR ''-''"
    using dd by (auto simp add: is_digit_def)
  have "read_digits 0 (digits (nat i) @ rest) = (nat i, rest)"
    by (simp add: read_digits_digits read_digits_stop [OF assms])
  then show ?thesis
    using False dd nm by (simp add: read_int_def appendInt_def ds)
qed

lemma StatusCode_field_marshal_Error:
  "StatusCode_field (marshal_Error v @ rest) = Some (ErrorStatusCode v)"
  by (simp add: StatusCode_field_def number_after_def marshal_Error_def read_int_appendInt
      is_digit_def)

lemma StatusCode_field_marshal_CoinBalanceResponse:
  "StatusCode_field (marshal_CoinBalanceResponse v @ rest) = Some (StatusCode v)"
  by (simp add: StatusCode_field_def number_after_def marshal_CoinBalanceResponse_def
      read_int_appendInt is_digit_def)

lemma Balance_field_marshal_CoinBalanceResponse:
  "Balance_field (marshal_CoinBalanceResponse v @ rest) = Some (sint (Balance v))"
  by (simp add: Balance_field_def number_after_def marshal_CoinBalanceResponse_def
      read_int_appendInt is_digit_def)

section \<open>What the writers, the store and the two stages compute\<close>

lemma writeError_final:
  assumes "status w = None" and "200 \<le> statusCode" and "statusCode \<le> 999"
    and "statusCode \<noteq> 204" and "statusCode \<noteq> 304"
  shows "writeError w message statusCode =
     Inr (w\<lparr>Header := (Header w)(''Content-Type'' \<mapsto> ''application/json''),
            status := Some statusCode,
            sentHeader := (Header w)(''Content-Type'' \<mapsto> ''application/json''),
            written := written w @
              marshal_Error \<lparr>ErrorStatusCode = statusCode, Message = message\<rparr> @ [CHR 0x0A]\<rparr>)"
  using assms
  by (simp add: writeError_def Encode_def Write_def WriteHeader_def Header_Set_def
      bodyAllowedForStatus_def Let_def)

lemma RequestErrorHandler_unsent:
  assumes "status w = None"
  shows "RequestErrorHandler w err =
     Inr (w\<lparr>Header := (Header w)(''Content-Type'' \<mapsto> ''application/json''),
            status := Some 400,
            sentHeader := (Header w)(''Content-Type'' \<mapsto> ''application/json''),
            written := written w @
              marshal_Error \<lparr>ErrorStatusCode = 400, Message = Error_text err\<rparr> @ [CHR 0x0A]\<rparr>)"
  using writeError_final [OF assms, of 400 "Error_text err"]
  by (simp add: RequestErrorHandler_def StatusBadRequest_def)


lemma marshal_rejection:
  \<open>marshal_Error \<lparr>ErrorStatusCode = 400, Message = Error_text UnAuthorizedError\<rparr> =
     ''{"StatusCode":400,"Message":"Invalid username or token."}''\<close>
  by (simp add: UnAuthorizedError_def marshal_Error_def appendInt_def digits.simps
      appendString_def escape_def)


lemma marshal_balance:
  \<open>marshal_CoinBalanceResponse \<lparr>StatusCode = 200, Balance = 1000\<rparr> =
     ''{"StatusCode":200,"Balance":1000}''\<close>
  \<open>marshal_CoinBalanceResponse \<lparr>StatusCode = 200, Balance = 2500\<rparr> =
     ''{"StatusCode":200,"Balance":2500}''\<close>
  by (simp_all add: marshal_CoinBalanceResponse_def appendInt_def digits.simps)

lemma Encode_unsent:
  assumes "status w = None"
  shows "Encode doc w =
     w\<lparr>status := Some 200, sentHeader := Header w, written := written w @ doc @ [CHR 0x0A]\<rparr>"
  using assms
  by (simp add: Encode_def Write_def StatusOK_def bodyAllowedForStatus_def Let_def)

lemma rejection_response:
  \<open>RequestErrorHandler newResponseWriter UnAuthorizedError =
     Inr \<lparr>Header = [''Content-Type'' \<mapsto> ''application/json''], status = Some 400,
          sentHeader = [''Content-Type'' \<mapsto> ''application/json''], informational = [],
          written = ''{"StatusCode":400,"Message":"Invalid username or token."}'' @ [CHR 0x0A]\<rparr>\<close>
  by (simp add: RequestErrorHandler_unsent newResponseWriter_def marshal_rejection)


lemma balance_response:
  "Encode (marshal_CoinBalanceResponse v) (Header_Set ''Content-Type'' ''application/json''
       newResponseWriter) =
     \<lparr>Header = [''Content-Type'' \<mapsto> ''application/json''], status = Some 200,
      sentHeader = [''Content-Type'' \<mapsto> ''application/json''], informational = [],
      written = marshal_CoinBalanceResponse v @ [CHR 0x0A]\<rparr>"
  by (simp add: Encode_unsent Header_Set_def newResponseWriter_def)

lemma mockDB_simps:
  "GetUserLoginDetails mockDB = mockDB_GetUserLoginDetails"
  "GetUserCoins mockDB = mockDB_GetUserCoins"
  "SetupDatabase mockDB = mockDB_SetupDatabase"
  by (simp_all add: mockDB_def)

lemma mockDB_GetUserLoginDetails_maps:
  "mockLoginDetails (snd (mockDB_GetUserLoginDetails u s)) = mockLoginDetails s"
  "mockCoinDetails (snd (mockDB_GetUserLoginDetails u s)) = mockCoinDetails s"
  by (simp_all add: mockDB_GetUserLoginDetails_def Let_def split: option.splits)

lemma mockDB_GetUserCoins_maps:
  "mockLoginDetails (snd (mockDB_GetUserCoins u s)) = mockLoginDetails s"
  "mockCoinDetails (snd (mockDB_GetUserCoins u s)) = mockCoinDetails s"
  by (simp_all add: mockDB_GetUserCoins_def Let_def split: option.splits)

lemma reference_world:
  "mockLoginDetails initial_world = reference_logins"
  "mockCoinDetails initial_world = reference_coins"
  "lookups initial_world = []"
  "logged initial_world = []"
  by (simp_all add: initial_world_def)

lemma reference_records:
  "reference_logins ''alex'' = Some \<lparr>AuthToken = ''123ABC'', LoginUsername = ''alex''\<rparr>"
  "reference_coins ''alex'' = Some \<lparr>Coins = 1000, CoinUsername = ''alex''\<rparr>"
  "reference_coins ''maria'' = Some \<lparr>Coins = 2500, CoinUsername = ''maria''\<rparr>"
  "reference_coins ''bob'' = None"
  by (simp_all add: reference_logins_def reference_coins_def)

lemma dom_reference_logins: "dom reference_logins = {''alex'', ''maria'', ''john''}"
  by (auto simp add: reference_logins_def split: if_splits)

lemma dom_reference_coins: "dom reference_coins = {''alex'', ''maria'', ''john''}"
  by (auto simp add: reference_coins_def split: if_splits)

text \<open>
  The gate over the mock store, by what the credential map holds: it answers with the
  rejection, or it calls the next stage in the state the lookup left.
\<close>

lemma Authorization_mockDB:
  "Authorization mockDB next w r s =
     (let username = Values_Get (URL_Query r) ''username'';
          token = Values_Get (RequestHeader r) ''Authorization'';
          s1 = snd (mockDB_GetUserLoginDetails username s)
      in if username = '''' \<or> token = '''' then (RequestErrorHandler w UnAuthorizedError, s)
         else case mockLoginDetails s username of
                None \<Rightarrow> (RequestErrorHandler w UnAuthorizedError, s1)
              | Some ld \<Rightarrow>
                  if token \<noteq> AuthToken ld then (RequestErrorHandler w UnAuthorizedError, s1)
                  else next w r s1)"
  by (simp add: Authorization_def mockDB_simps mockDB_GetUserLoginDetails_def Let_def
      split: option.splits)

text \<open>The balance handler over the mock store, by what the balance map holds.\<close>

lemma GetCoinBalance_mockDB:
  "GetCoinBalance walk mockDB w r s =
     (case Decode walk \<lparr>Username = ''''\<rparr> (URL_Query r) of
        (params, Some e) \<Rightarrow> (InternalErrorHandler w, s\<lparr>logged := logged s @ [e]\<rparr>)
      | (params, None) \<Rightarrow>
          (case mockCoinDetails s (Username params) of
             None \<Rightarrow> (Inl NilPointerDereference, snd (mockDB_GetUserCoins (Username params) s))
           | Some cd \<Rightarrow>
               (Inr (Encode
                      (marshal_CoinBalanceResponse \<lparr>StatusCode = StatusOK, Balance = Coins cd\<rparr>)
                      (Header_Set ''Content-Type'' ''application/json'' w)),
                snd (mockDB_GetUserCoins (Username params) s))))"
  by (simp add: GetCoinBalance_def decode_failed_def mockDB_simps mockDB_GetUserCoins_def Let_def
      split: option.splits prod.splits)

lemma account_coins_mockDB:
  "account_coins walk mockDB r s =
     (let username = Values_Get (URL_Query r) ''username'';
          token = Values_Get (RequestHeader r) ''Authorization'';
          s1 = snd (mockDB_GetUserLoginDetails username s);
          rejection = RequestErrorHandler newResponseWriter UnAuthorizedError
      in if username = '''' \<or> token = '''' then (rejection, s)
         else case mockLoginDetails s username of
                None \<Rightarrow> (rejection, s1)
              | Some ld \<Rightarrow>
                  if token \<noteq> AuthToken ld then (rejection, s1)
                  else GetCoinBalance walk mockDB newResponseWriter r s1)"
  by (simp add: account_coins_def Authorization_mockDB Let_def)

text \<open>The decoder on the keys of the requests below.\<close>

lemma EqualFold_Username:
  "EqualFold ''Username'' ''username''"
  "EqualFold ''Username'' ''Username''"
  "\<not> EqualFold ''Username'' ''foo''"
  by (simp_all add: ascii_fold_eq_def)

lemma Decode_one_key:
  "Decode [''username''] dst src =
     (if src ''username'' = [] \<or> last (src ''username'') = '''' then dst
      else dst\<lparr>Username := last (src ''username'')\<rparr>, None)"
  by (simp add: Decode_def decode_key_def EqualFold_Username Let_def del: EqualFold.simps
      split: list.splits)

lemma Decode_fails_iff:
  "(snd (Decode walk dst src) \<noteq> None) = (\<exists>k \<in> set walk. \<not> EqualFold ''Username'' k)"
proof -
  have "snd (foldl (decode_key src) (d, es) ks) =
      es @ filter (\<lambda>k. \<not> EqualFold ''Username'' k) ks" for d es ks
    by (induction ks arbitrary: d es)
      (simp_all add: decode_key_def Let_def del: EqualFold.simps split: list.splits)
  then have "snd (foldl (decode_key src) (dst, []) walk) =
      filter (\<lambda>k. \<not> EqualFold ''Username'' k) walk"
    by simp
  moreover have "(snd (Decode walk dst src) \<noteq> None) =
      (snd (foldl (decode_key src) (dst, []) walk) \<noteq> [])"
    by (simp add: Decode_def split: prod.splits)
  ultimately show ?thesis
    by (simp add: filter_empty_conv)
qed

lemma walks_query_username:
  "usernames \<noteq> [] \<Longrightarrow> walks_query [''username''] (request_with usernames tokens (\<lambda>k. []))"
  by (auto simp add: walks_query_def request_with_def)

text \<open>
  The route over the mock store when the gate lets the request through and the decoder
  returns no error: the balance handler looks up the identity the decoder yields.
\<close>

lemma account_coins_forwarded:
  assumes u: "Values_Get (URL_Query r) ''username'' = u" "u \<noteq> ''''"
    and t: "Values_Get (RequestHeader r) ''Authorization'' = t" "t \<noteq> ''''"
    and ld: "mockLoginDetails s u = Some ld" "AuthToken ld = t"
    and dec: "Decode walk \<lparr>Username = ''''\<rparr> (URL_Query r) = (\<lparr>Username = v\<rparr>, None)"
  shows "fst (account_coins walk mockDB r s) =
           (case mockCoinDetails s v of
              None \<Rightarrow> Inl NilPointerDereference
            | Some cd \<Rightarrow>
                Inr \<lparr>Header = [''Content-Type'' \<mapsto> ''application/json''], status = Some 200,
                     sentHeader = [''Content-Type'' \<mapsto> ''application/json''],
                     informational = [],
                     written = marshal_CoinBalanceResponse
                       \<lparr>StatusCode = 200, Balance = Coins cd\<rparr> @ [CHR 0x0A]\<rparr>)"
    and "lookups (snd (account_coins walk mockDB r s)) =
           lookups s @ [LoginLookup u, CoinLookup v]"
proof -
  let ?s1 = "snd (mockDB_GetUserLoginDetails u s)"
  have run: "account_coins walk mockDB r s = GetCoinBalance walk mockDB newResponseWriter r ?s1"
    using u t ld by (simp add: account_coins_mockDB Let_def)
  have coins: "mockCoinDetails ?s1 = mockCoinDetails s"
    by (simp add: mockDB_GetUserLoginDetails_maps)
  show "fst (account_coins walk mockDB r s) =
           (case mockCoinDetails s v of
              None \<Rightarrow> Inl NilPointerDereference
            | Some cd \<Rightarrow>
                Inr \<lparr>Header = [''Content-Type'' \<mapsto> ''application/json''], status = Some 200,
                     sentHeader = [''Content-Type'' \<mapsto> ''application/json''],
                     informational = [],
                     written = marshal_CoinBalanceResponse
                       \<lparr>StatusCode = 200, Balance = Coins cd\<rparr> @ [CHR 0x0A]\<rparr>)"
    by (simp add: run GetCoinBalance_mockDB dec coins balance_response StatusOK_def
        split: option.splits)
  show "lookups (snd (account_coins walk mockDB r s)) =
           lookups s @ [LoginLookup u, CoinLookup v]"
    by (simp add: run GetCoinBalance_mockDB dec coins split: option.splits)
      (simp add: mockDB_GetUserCoins_def mockDB_GetUserLoginDetails_def Let_def
        split: option.splits)
qed

text \<open>
  With the order of the decoder's walk fixed, the response of the route over the mock
  store depends on the request and on the two maps only, and the route leaves the maps
  as they were.
\<close>

lemma account_coins_maps:
  "mockLoginDetails (snd (account_coins walk mockDB r s)) = mockLoginDetails s"
  "mockCoinDetails (snd (account_coins walk mockDB r s)) = mockCoinDetails s"
  by (simp_all add: account_coins_mockDB GetCoinBalance_mockDB Let_def
      mockDB_GetUserLoginDetails_maps mockDB_GetUserCoins_maps
      split: option.splits prod.splits)

lemma account_coins_reads_maps_only:
  assumes "mockLoginDetails s = mockLoginDetails t" and "mockCoinDetails s = mockCoinDetails t"
  shows "fst (account_coins walk mockDB r s) = fst (account_coins walk mockDB r t)"
  using assms
  by (simp add: account_coins_mockDB GetCoinBalance_mockDB Let_def
      mockDB_GetUserLoginDetails_maps split: option.splits prod.splits)

section \<open>The store hands out copies\<close>

lemma perform_maps:
  "mockLoginDetails (perform c s) = mockLoginDetails s"
  "mockCoinDetails (perform c s) = mockCoinDetails s"
  by (cases c; simp add: mockDB_GetUserLoginDetails_maps mockDB_GetUserCoins_maps)+

lemma perform_next:
  "nextLoginVar s \<le> nextLoginVar (perform c s)"
  "nextCoinVar s \<le> nextCoinVar (perform c s)"
  by (cases c; simp add: mockDB_GetUserLoginDetails_def mockDB_GetUserCoins_def Let_def
      split: option.splits)+

lemma run_client_maps:
  "mockLoginDetails (run_client cs s) = mockLoginDetails s \<and>
   mockCoinDetails (run_client cs s) = mockCoinDetails s"
  by (induction cs arbitrary: s) (simp_all add: perform_maps)

lemma run_client_next:
  "nextLoginVar s \<le> nextLoginVar (run_client cs s) \<and>
   nextCoinVar s \<le> nextCoinVar (run_client cs s)"
proof (induction cs arbitrary: s)
  case Nil
  show ?case by simp
next
  case (Cons c cs)
  from Cons.IH [of "perform c s"] perform_next [of s c] show ?case
    by simp
qed

lemma mockDB_GetUserLoginDetails_copy:
  "(case mockDB_GetUserLoginDetails username t of
      (p, t') \<Rightarrow>
        p = map_option (\<lambda>_. nextLoginVar t) (mockLoginDetails t username) \<and>
        map_option (loginVars t') p = mockLoginDetails t username \<and>
        nextLoginVar t' = Suc (nextLoginVar t))"
  by (simp add: mockDB_GetUserLoginDetails_def Let_def split: option.splits)

lemma mockDB_GetUserCoins_copy:
  "(case mockDB_GetUserCoins username t of
      (p, t') \<Rightarrow>
        p = map_option (\<lambda>_. nextCoinVar t) (mockCoinDetails t username) \<and>
        map_option (coinVars t') p = mockCoinDetails t username \<and>
        nextCoinVar t' = Suc (nextCoinVar t))"
  by (simp add: mockDB_GetUserCoins_def Let_def split: option.splits)

section \<open>The claims\<close>

text \<open>
  C1. A request whose \<^verbatim>\<open>username\<close> query parameter and \<^verbatim>\<open>Authorization\<close> header are a
  credential pair of the store, and whose identity has a balance record, is to be
  answered with status 200 and the stored balance of that identity. The gate reads the
  first value of the key \<^verbatim>\<open>username\<close>, the decoder of the handler the last one: the request
  \<^verbatim>\<open>username=alex&username=maria\<close> with the token \<^verbatim>\<open>123ABC\<close> of \<^verbatim>\<open>alex\<close> passes the gate as
  \<^verbatim>\<open>alex\<close> and is answered with status 200 and the balance 2500 of \<^verbatim>\<open>maria\<close>.
\<close>

theorem repeated_username_gets_another_balance:
  \<open>walks_query [''username''] (request_with [''alex'', ''maria''] [''123ABC''] (\<lambda>k. [])) \<and>
   Values_Get (URL_Query (request_with [''alex'', ''maria''] [''123ABC''] (\<lambda>k. []))) ''username'' =
     ''alex'' \<and>
   Values_Get (RequestHeader (request_with [''alex'', ''maria''] [''123ABC''] (\<lambda>k. [])))
     ''Authorization'' = ''123ABC'' \<and>
   mockLoginDetails initial_world ''alex'' =
     Some \<lparr>AuthToken = ''123ABC'', LoginUsername = ''alex''\<rparr> \<and>
   mockCoinDetails initial_world ''alex'' = Some \<lparr>Coins = 1000, CoinUsername = ''alex''\<rparr> \<and>
   fst (account_coins [''username''] mockDB
          (request_with [''alex'', ''maria''] [''123ABC''] (\<lambda>k. [])) initial_world) =
     Inr \<lparr>Header = [''Content-Type'' \<mapsto> ''application/json''], status = Some 200,
          sentHeader = [''Content-Type'' \<mapsto> ''application/json''], informational = [],
          written = ''{"StatusCode":200,"Balance":2500}'' @ [CHR 0x0A]\<rparr> \<and>
   Balance_field (''{"StatusCode":200,"Balance":2500}'' @ [CHR 0x0A]) = Some 2500 \<and>
   lookups (snd (account_coins [''username''] mockDB
          (request_with [''alex'', ''maria''] [''123ABC''] (\<lambda>k. [])) initial_world)) =
     [LoginLookup ''alex'', CoinLookup ''maria'']\<close>
proof -
  let ?r = "request_with [''alex'', ''maria''] [''123ABC''] (\<lambda>k. [])"
  have walk: "walks_query [''username''] ?r"
    by (simp add: walks_query_username)
  have read: "Values_Get (URL_Query ?r) ''username'' = ''alex''"
    "Values_Get (RequestHeader ?r) ''Authorization'' = ''123ABC''"
    by (simp_all add: request_with_def Values_Get_def)
  have dec: "Decode [''username''] \<lparr>Username = ''''\<rparr> (URL_Query ?r) =
      (\<lparr>Username = ''maria''\<rparr>, None)"
    by (simp add: Decode_one_key request_with_def)
  have response: "fst (account_coins [''username''] mockDB ?r initial_world) =
      Inr \<lparr>Header = [''Content-Type'' \<mapsto> ''application/json''], status = Some 200,
           sentHeader = [''Content-Type'' \<mapsto> ''application/json''], informational = [],
           written = marshal_CoinBalanceResponse
             \<lparr>StatusCode = 200, Balance = 2500\<rparr> @ [CHR 0x0A]\<rparr>"
    using account_coins_forwarded(1) [OF read(1) _ read(2) _ _ _ dec, of initial_world]
    by (simp add: reference_world reference_records)
  have trace: "lookups (snd (account_coins [''username''] mockDB ?r initial_world)) =
      [LoginLookup ''alex'', CoinLookup ''maria'']"
    using account_coins_forwarded(2) [OF read(1) _ read(2) _ _ _ dec, of initial_world]
    by (simp add: reference_world reference_records)
  have field: \<open>Balance_field (''{"StatusCode":200,"Balance":2500}'' @ [CHR 0x0A]) = Some 2500\<close>
    using Balance_field_marshal_CoinBalanceResponse
      [of "\<lparr>StatusCode = 200, Balance = 2500\<rparr>" "[CHR 0x0A]"]
    by (simp add: marshal_balance)
  show ?thesis
    using walk read response trace field
    by (simp add: reference_world reference_records marshal_balance)
qed

text \<open>
  C2. A request with correct credentials whose identity has no balance record should be
  answered with status 404. The handler as listed reads \<^verbatim>\<open>Coins\<close> through the pointer
  without looking at it: on a store that knows \<^verbatim>\<open>bob\<close> and his token and has no balance
  for him, the request ends in the panic and no response is written.
\<close>

theorem missing_balance_record_panics:
  "fst (account_coins [''username''] mockDB
          (request_with [''bob''] [''000XYZ''] (\<lambda>k. [])) world_without_balance) =
     Inl NilPointerDereference"
proof -
  let ?r = "request_with [''bob''] [''000XYZ''] (\<lambda>k. [])"
  have read: "Values_Get (URL_Query ?r) ''username'' = ''bob''"
    "Values_Get (RequestHeader ?r) ''Authorization'' = ''000XYZ''"
    by (simp_all add: request_with_def Values_Get_def)
  have dec: "Decode [''username''] \<lparr>Username = ''''\<rparr> (URL_Query ?r) = (\<lparr>Username = ''bob''\<rparr>, None)"
    by (simp add: Decode_one_key request_with_def)
  show ?thesis
    using account_coins_forwarded(1) [OF read(1) _ read(2) _ _ _ dec, of world_without_balance]
    by (simp add: world_without_balance_def initial_world_def reference_records)
qed

text \<open>
  C3. When the \<^verbatim>\<open>username\<close> query parameter or the \<^verbatim>\<open>Authorization\<close> header is empty or
  absent, the gate answers with the rejection, status 400, and hands back the state it
  was given: no method of the store has been called, whatever the store and the next
  stage are.
\<close>

theorem missing_credentials_rejected_without_lookup:
  assumes "Values_Get (URL_Query r) ''username'' = '''' \<or>
           Values_Get (RequestHeader r) ''Authorization'' = ''''"
  shows "Authorization database next w r s = (RequestErrorHandler w UnAuthorizedError, s) \<and>
         account_coins walk database r s =
           (RequestErrorHandler newResponseWriter UnAuthorizedError, s) \<and>
         (\<exists>w'. RequestErrorHandler newResponseWriter UnAuthorizedError = Inr w' \<and>
            status w' = Some 400 \<and> StatusCode_field (written w') = Some 400) \<and>
         lookups (snd (account_coins walk database r s)) = lookups s"
proof -
  have gate: "Authorization database h w r s = (RequestErrorHandler w UnAuthorizedError, s)"
    for h w
    using assms by (auto simp add: Authorization_def Let_def)
  have "StatusCode_field (marshal_Error \<lparr>ErrorStatusCode = 400,
      Message = Error_text UnAuthorizedError\<rparr> @ [CHR 0x0A]) = Some 400"
    using StatusCode_field_marshal_Error
      [of "\<lparr>ErrorStatusCode = 400, Message = Error_text UnAuthorizedError\<rparr>" "[CHR 0x0A]"]
    by simp
  then have "\<exists>w'. RequestErrorHandler newResponseWriter UnAuthorizedError = Inr w' \<and>
      status w' = Some 400 \<and> StatusCode_field (written w') = Some 400"
    by (simp add: RequestErrorHandler_unsent newResponseWriter_def)
  then show ?thesis
    by (simp add: gate account_coins_def)
qed

theorem missing_credentials_rejected_without_lookup_witness:
  \<open>account_coins [] mockDB (request_with [] [] (\<lambda>k. [])) initial_world =
     (RequestErrorHandler newResponseWriter UnAuthorizedError, initial_world) \<and>
   lookups (snd (account_coins [] mockDB (request_with [] [] (\<lambda>k. [])) initial_world)) = [] \<and>
   RequestErrorHandler newResponseWriter UnAuthorizedError =
     Inr \<lparr>Header = [''Content-Type'' \<mapsto> ''application/json''], status = Some 400,
          sentHeader = [''Content-Type'' \<mapsto> ''application/json''], informational = [],
          written = ''{"StatusCode":400,"Message":"Invalid username or token."}'' @ [CHR 0x0A]\<rparr>\<close>
  using missing_credentials_rejected_without_lookup
    [of "request_with [] [] (\<lambda>k. [])" mockDB "GetCoinBalance [] mockDB"
      newResponseWriter initial_world "[]"]
  by (simp add: request_with_def Values_Get_def rejection_response reference_world)

text \<open>
  C4. A request without credentials and a request that names an identity the store
  knows with a token that is not the stored one get the same response, byte for byte:
  status 400 and the one message of \<^verbatim>\<open>UnAuthorizedError\<close>.
\<close>

theorem rejections_indistinguishable:
  assumes missing: "Values_Get (URL_Query r1) ''username'' = '''' \<or>
                    Values_Get (RequestHeader r1) ''Authorization'' = ''''"
    and known: "mockLoginDetails s2 (Values_Get (URL_Query r2) ''username'') = Some ld"
    and wrong: "Values_Get (RequestHeader r2) ''Authorization'' \<noteq> AuthToken ld"
  shows "fst (Authorization mockDB h1 w r1 s1) = fst (Authorization mockDB h2 w r2 s2) \<and>
         fst (account_coins walk1 mockDB r1 s1) = fst (account_coins walk2 mockDB r2 s2) \<and>
         (\<exists>w'. fst (account_coins walk2 mockDB r2 s2) = Inr w' \<and> status w' = Some 400 \<and>
              written w' = marshal_Error \<lparr>ErrorStatusCode = 400,
                             Message = Error_text UnAuthorizedError\<rparr> @ [CHR 0x0A])"
proof -
  have one: "fst (Authorization mockDB h w r1 s1) = RequestErrorHandler w UnAuthorizedError"
    for h w
    using missing by (auto simp add: Authorization_mockDB Let_def)
  have two: "fst (Authorization mockDB h w r2 s2) = RequestErrorHandler w UnAuthorizedError"
    for h w
    using known wrong by (auto simp add: Authorization_mockDB Let_def)
  have "\<exists>w'. RequestErrorHandler newResponseWriter UnAuthorizedError = Inr w' \<and>
      status w' = Some 400 \<and>
      written w' = marshal_Error \<lparr>ErrorStatusCode = 400,
                     Message = Error_text UnAuthorizedError\<rparr> @ [CHR 0x0A]"
    by (simp add: RequestErrorHandler_unsent newResponseWriter_def)
  then show ?thesis
    by (simp add: one two account_coins_def)
qed

theorem rejections_indistinguishable_witness:
  \<open>fst (account_coins [] mockDB (request_with [] [] (\<lambda>k. [])) initial_world) =
     fst (account_coins [''username''] mockDB (request_with [''alex''] [''WRONG''] (\<lambda>k. []))
            initial_world) \<and>
   (\<exists>w'. fst (account_coins [''username''] mockDB
              (request_with [''alex''] [''WRONG''] (\<lambda>k. [])) initial_world) = Inr w' \<and>
         status w' = Some 400 \<and>
         written w' = ''{"StatusCode":400,"Message":"Invalid username or token."}'' @ [CHR 0x0A])\<close>
proof -
  let ?r1 = "request_with [] [] (\<lambda>k. [])"
  let ?r2 = "request_with [''alex''] [''WRONG''] (\<lambda>k. [])"
  have "fst (Authorization mockDB (GetCoinBalance [] mockDB) newResponseWriter ?r1
               initial_world) =
          fst (Authorization mockDB (GetCoinBalance [''username''] mockDB) newResponseWriter ?r2
               initial_world) \<and>
        fst (account_coins [] mockDB ?r1 initial_world) =
          fst (account_coins [''username''] mockDB ?r2 initial_world) \<and>
        (\<exists>w'. fst (account_coins [''username''] mockDB ?r2 initial_world) = Inr w' \<and>
           status w' = Some 400 \<and>
           written w' = marshal_Error \<lparr>ErrorStatusCode = 400,
                          Message = Error_text UnAuthorizedError\<rparr> @ [CHR 0x0A])"
    by (rule rejections_indistinguishable
        [where ld = "\<lparr>AuthToken = ''123ABC'', LoginUsername = ''alex''\<rparr>"])
      (simp_all add: request_with_def Values_Get_def reference_world reference_records)
  then show ?thesis
    by (simp add: marshal_rejection)
qed



text \<open>
  C6. The same request sent again is to get the same response. A query that spells the
  key twice, \<^verbatim>\<open>username=alex&Username=maria\<close>, has two keys that fold to the field of the
  parameter struct; the decoder keeps the value of the key its walk over the query meets
  last, and the order of that walk is chosen anew for every request. With the token of
  \<^verbatim>\<open>alex\<close> the request is answered with the balance 1000 on one walk and with 2500 on the
  other.
\<close>

theorem two_spellings_two_answers:
  \<open>walks_query [''username'', ''Username'']
     (request_with [''alex''] [''123ABC''] ((\<lambda>k. [])(''Username'' := [''maria'']))) \<and>
   walks_query [''Username'', ''username'']
     (request_with [''alex''] [''123ABC''] ((\<lambda>k. [])(''Username'' := [''maria'']))) \<and>
   fst (repeat_request mockDB
          (request_with [''alex''] [''123ABC''] ((\<lambda>k. [])(''Username'' := [''maria''])))
          [[''Username'', ''username''], [''username'', ''Username'']] initial_world) =
     [Inr \<lparr>Header = [''Content-Type'' \<mapsto> ''application/json''], status = Some 200,
           sentHeader = [''Content-Type'' \<mapsto> ''application/json''], informational = [],
           written = ''{"StatusCode":200,"Balance":1000}'' @ [CHR 0x0A]\<rparr>,
      Inr \<lparr>Header = [''Content-Type'' \<mapsto> ''application/json''], status = Some 200,
           sentHeader = [''Content-Type'' \<mapsto> ''application/json''], informational = [],
           written = ''{"StatusCode":200,"Balance":2500}'' @ [CHR 0x0A]\<rparr>]\<close>
proof -
  let ?r = "request_with [''alex''] [''123ABC''] ((\<lambda>k. [])(''Username'' := [''maria'']))"
  let ?s1 = "snd (account_coins [''Username'', ''username''] mockDB ?r initial_world)"
  have keys: "{k. URL_Query ?r k \<noteq> []} = {''username'', ''Username''}"
    by (auto simp add: request_with_def)
  have walks: "walks_query [''username'', ''Username''] ?r"
    "walks_query [''Username'', ''username''] ?r"
    by (auto simp add: walks_query_def keys)
  have read: "Values_Get (URL_Query ?r) ''username'' = ''alex''"
    "Values_Get (RequestHeader ?r) ''Authorization'' = ''123ABC''"
    by (simp_all add: request_with_def Values_Get_def)
  have dec1: "Decode [''Username'', ''username''] \<lparr>Username = ''''\<rparr> (URL_Query ?r) =
      (\<lparr>Username = ''alex''\<rparr>, None)"
    by (simp add: Decode_def decode_key_def EqualFold_Username request_with_def
        del: EqualFold.simps)
  have dec2: "Decode [''username'', ''Username''] \<lparr>Username = ''''\<rparr> (URL_Query ?r) =
      (\<lparr>Username = ''maria''\<rparr>, None)"
    by (simp add: Decode_def decode_key_def EqualFold_Username request_with_def
        del: EqualFold.simps)
  have maps1: "mockLoginDetails ?s1 = reference_logins" "mockCoinDetails ?s1 = reference_coins"
    by (simp_all add: account_coins_maps reference_world)
  have first: "fst (account_coins [''Username'', ''username''] mockDB ?r initial_world) =
      Inr \<lparr>Header = [''Content-Type'' \<mapsto> ''application/json''], status = Some 200,
           sentHeader = [''Content-Type'' \<mapsto> ''application/json''], informational = [],
           written = marshal_CoinBalanceResponse
             \<lparr>StatusCode = 200, Balance = 1000\<rparr> @ [CHR 0x0A]\<rparr>"
    using account_coins_forwarded(1) [OF read(1) _ read(2) _ _ _ dec1, of initial_world]
    by (simp add: reference_world reference_records)
  have second: "fst (account_coins [''username'', ''Username''] mockDB ?r ?s1) =
      Inr \<lparr>Header = [''Content-Type'' \<mapsto> ''application/json''], status = Some 200,
           sentHeader = [''Content-Type'' \<mapsto> ''application/json''], informational = [],
           written = marshal_CoinBalanceResponse
             \<lparr>StatusCode = 200, Balance = 2500\<rparr> @ [CHR 0x0A]\<rparr>"
    using account_coins_forwarded(1) [OF read(1) _ read(2) _ _ _ dec2, of ?s1]
    by (simp add: maps1 reference_records)
  have "fst (repeat_request mockDB ?r [[''Username'', ''username''], [''username'', ''Username'']]
        initial_world) =
      [fst (account_coins [''Username'', ''username''] mockDB ?r initial_world),
       fst (account_coins [''username'', ''Username''] mockDB ?r ?s1)]"
    by (simp add: split_def)
  with first second walks show ?thesis
    by (simp add: marshal_balance)
qed

text \<open>
  C7. \<^verbatim>\<open>SetupDatabase\<close> of the mock store returns \<^verbatim>\<open>nil\<close> on every call and leaves the
  state as it was.
\<close>

theorem SetupDatabase_succeeds_and_keeps_the_store:
  "SetupDatabase mockDB s = (None, s)"
  by (simp add: mockDB_simps mockDB_SetupDatabase_def)

text \<open>
  C8. The credential map and the balance map of the reference store have the same three
  keys, and a request that passes the gate on the reference data is to find a balance
  record. The request \<^verbatim>\<open>username=alex&username=bob\<close> with the token of \<^verbatim>\<open>alex\<close> passes the
  gate as \<^verbatim>\<open>alex\<close>; the handler looks up \<^verbatim>\<open>bob\<close>, the last value, for whom
  \<^verbatim>\<open>GetUserCoins\<close> returns \<^verbatim>\<open>nil\<close>, and the read through it is the panic.
\<close>

theorem gate_passed_balance_lookup_nil:
  \<open>dom reference_logins = {''alex'', ''maria'', ''john''} \<and>
   dom reference_coins = {''alex'', ''maria'', ''john''} \<and>
   walks_query [''username''] (request_with [''alex'', ''bob''] [''123ABC''] (\<lambda>k. [])) \<and>
   fst (account_coins [''username''] mockDB
          (request_with [''alex'', ''bob''] [''123ABC''] (\<lambda>k. [])) initial_world) =
     Inl NilPointerDereference \<and>
   lookups (snd (account_coins [''username''] mockDB
          (request_with [''alex'', ''bob''] [''123ABC''] (\<lambda>k. [])) initial_world)) =
     [LoginLookup ''alex'', CoinLookup ''bob'']\<close>
proof -
  let ?r = "request_with [''alex'', ''bob''] [''123ABC''] (\<lambda>k. [])"
  have read: "Values_Get (URL_Query ?r) ''username'' = ''alex''"
    "Values_Get (RequestHeader ?r) ''Authorization'' = ''123ABC''"
    by (simp_all add: request_with_def Values_Get_def)
  have dec: "Decode [''username''] \<lparr>Username = ''''\<rparr> (URL_Query ?r) = (\<lparr>Username = ''bob''\<rparr>, None)"
    by (simp add: Decode_one_key request_with_def)
  have "fst (account_coins [''username''] mockDB ?r initial_world) = Inl NilPointerDereference"
    using account_coins_forwarded(1) [OF read(1) _ read(2) _ _ _ dec, of initial_world]
    by (simp add: reference_world reference_records)
  moreover have "lookups (snd (account_coins [''username''] mockDB ?r initial_world)) =
      [LoginLookup ''alex'', CoinLookup ''bob'']"
    using account_coins_forwarded(2) [OF read(1) _ read(2) _ _ _ dec, of initial_world]
    by (simp add: reference_world reference_records)
  moreover have "walks_query [''username''] ?r"
    by (simp add: walks_query_username)
  ultimately show ?thesis
    by (simp add: dom_reference_logins dom_reference_coins)
qed

text \<open>
  C9. After any sequence of lookups and of assignments through pointers to records, the
  two maps are what they were, and a lookup returns \<^verbatim>\<open>nil\<close> for a key the map lacks
  and otherwise the address of a cell that has not been handed out before and holds the
  record the map has for the key.
\<close>

theorem lookups_return_fresh_copies:
  "mockLoginDetails (run_client cs s) = mockLoginDetails s \<and>
   mockCoinDetails (run_client cs s) = mockCoinDetails s \<and>
   nextLoginVar s \<le> nextLoginVar (run_client cs s) \<and>
   nextCoinVar s \<le> nextCoinVar (run_client cs s) \<and>
   (case GetUserLoginDetails mockDB username (run_client cs s) of
      (p, s') \<Rightarrow>
        p = map_option (\<lambda>_. nextLoginVar (run_client cs s)) (mockLoginDetails s username) \<and>
        map_option (loginVars s') p = mockLoginDetails s username \<and>
        nextLoginVar s' = Suc (nextLoginVar (run_client cs s))) \<and>
   (case GetUserCoins mockDB username (run_client cs s) of
      (p, s') \<Rightarrow>
        p = map_option (\<lambda>_. nextCoinVar (run_client cs s)) (mockCoinDetails s username) \<and>
        map_option (coinVars s') p = mockCoinDetails s username \<and>
        nextCoinVar s' = Suc (nextCoinVar (run_client cs s)))"
  using mockDB_GetUserLoginDetails_copy [where username = username and t = "run_client cs s"]
    mockDB_GetUserCoins_copy [where username = username and t = "run_client cs s"]
    run_client_maps [of cs s] run_client_next [of s cs]
  by (simp add: mockDB_simps)

theorem lookups_return_fresh_copies_witness:
  "fst (GetUserLoginDetails mockDB ''alex'' initial_world) = Some 0 \<and>
   fst (GetUserLoginDetails mockDB ''alex''
          (run_client [AssignLoginDetails 0 \<lparr>AuthToken = ''CHANGED'', LoginUsername = ''eve''\<rparr>]
             (snd (GetUserLoginDetails mockDB ''alex'' initial_world)))) = Some 1 \<and>
   loginVars (snd (GetUserLoginDetails mockDB ''alex''
          (run_client [AssignLoginDetails 0 \<lparr>AuthToken = ''CHANGED'', LoginUsername = ''eve''\<rparr>]
             (snd (GetUserLoginDetails mockDB ''alex'' initial_world))))) 1 =
     \<lparr>AuthToken = ''123ABC'', LoginUsername = ''alex''\<rparr> \<and>
   mockLoginDetails (run_client
       [AssignLoginDetails 0 \<lparr>AuthToken = ''CHANGED'', LoginUsername = ''eve''\<rparr>]
       (snd (GetUserLoginDetails mockDB ''alex'' initial_world))) = reference_logins"
proof -
  let ?c = "[AssignLoginDetails 0 \<lparr>AuthToken = ''CHANGED'', LoginUsername = ''eve''\<rparr>]"
  let ?s1 = "snd (GetUserLoginDetails mockDB ''alex'' initial_world)"
  let ?s2 = "run_client ?c ?s1"
  let ?out = "GetUserLoginDetails mockDB ''alex'' ?s2"
  have alex: "reference_logins ''alex'' = Some \<lparr>AuthToken = ''123ABC'', LoginUsername = ''alex''\<rparr>"
    by (simp add: reference_logins_def)
  have first: "fst (GetUserLoginDetails mockDB ''alex'' initial_world) = Some 0"
    by (simp add: mockDB_simps mockDB_GetUserLoginDetails_def initial_world_def alex Let_def)
  have s1: "mockLoginDetails ?s1 = reference_logins"
    by (simp add: mockDB_simps mockDB_GetUserLoginDetails_maps initial_world_def)
  have n1: "nextLoginVar ?s1 = 1"
    by (simp add: mockDB_simps mockDB_GetUserLoginDetails_def initial_world_def alex Let_def)
  have n2: "nextLoginVar ?s2 = 1"
    by (simp add: n1)
  note fact = lookups_return_fresh_copies [of ?c ?s1 "''alex''"]
  have maps: "mockLoginDetails ?s2 = reference_logins"
    using fact s1 by (simp only:)
  have "case ?out of
      (p, s') \<Rightarrow>
        p = map_option (\<lambda>_. nextLoginVar ?s2) (mockLoginDetails ?s1 ''alex'') \<and>
        map_option (loginVars s') p = mockLoginDetails ?s1 ''alex'' \<and>
        nextLoginVar s' = Suc (nextLoginVar ?s2)"
    using fact by (elim conjE)
  then have both:
    "fst ?out = map_option (\<lambda>_. nextLoginVar ?s2) (mockLoginDetails ?s1 ''alex'') \<and>
     map_option (loginVars (snd ?out)) (fst ?out) = mockLoginDetails ?s1 ''alex'' \<and>
     nextLoginVar (snd ?out) = Suc (nextLoginVar ?s2)"
    unfolding case_prod_beta .
  note p1 = both [THEN conjunct1] and p2 = both [THEN conjunct2, THEN conjunct1]
  have second: "fst ?out = Some 1"
    unfolding p1 s1 alex n2 by simp
  have cell: "loginVars (snd ?out) 1 = \<lparr>AuthToken = ''123ABC'', LoginUsername = ''alex''\<rparr>"
    using p2 unfolding second s1 alex by simp
  from first second cell maps show ?thesis
    by (intro conjI)
qed




end
